theory Spec2Isabelle
  imports Main "HOL-Library.AList"
begin

section \<open>Pre-launch backend health check (scripts/verify\_launch.py)\<close>

text \<open>
  The script probes a fixed table of backend routes with one HTTP request each, classifies
  every outcome as passed, protected or failed, prints one formatted line per route and a
  summary, and returns the process exit code.

  The network, the JSON encoder and the clock are not part of the script. They enter the
  model as parameters: \<open>urlopen\<close> answers a request in a world \<open>'w\<close> and returns the next
  world, \<open>dumps\<close> is \<open>json.dumps\<close> followed by \<open>.encode()\<close>. Every theorem holds for all of
  them. Interrupts delivered from outside the process (KeyboardInterrupt, SystemExit) are
  not outcomes of a request and are outside the model.
\<close>

subsection \<open>Python strings\<close>

text \<open>
  A Python \<open>str\<close> is a sequence of Unicode code points; \<open>len\<close>, the format widths and the
  \<open>in\<close> operator count code points. The script prints characters beyond ASCII (its icons),
  so a string is a list of code points, and \<open>ascii\<close> embeds an ASCII literal.
\<close>

type_synonym pystr = "nat list"

definition ascii :: "string \<Rightarrow> pystr" where
  "ascii s = map of_char s"

text \<open>\<open>str(n)\<close> for an \<open>int\<close>: decimal digits, most significant first, with a sign.\<close>

definition digit :: "nat \<Rightarrow> nat" where
  "digit d = 48 + d"

function str_nat :: "nat \<Rightarrow> pystr" where
  "str_nat n = (if n < 10 then [digit n] else str_nat (n div 10) @ [digit (n mod 10)])"
  by pat_completeness auto
termination
  by (relation "measure (\<lambda>n. n)") auto

declare str_nat.simps [simp del]

definition str_int :: "int \<Rightarrow> pystr" where
  "str_int i = (if i < 0 then 45 # str_nat (nat (- i)) else str_nat (nat i))"

text \<open>\<open>s.startswith(p)\<close> and \<open>p in s\<close> (substring test).\<close>

fun startswith :: "pystr \<Rightarrow> pystr \<Rightarrow> bool" where
  "startswith s [] = True"
| "startswith [] (p # ps) = False"
| "startswith (c # cs) (p # ps) = (c = p \<and> startswith cs ps)"

fun py_in :: "pystr \<Rightarrow> pystr \<Rightarrow> bool" where
  "py_in p [] = (p = [])"
| "py_in p (c # cs) = (startswith (c # cs) p \<or> py_in p cs)"

text \<open>The format specifications \<open><n\<close> and \<open>>n\<close>: pad with spaces up to a minimum width,
  never truncate.\<close>

definition ljust :: "nat \<Rightarrow> pystr \<Rightarrow> pystr" where
  "ljust n s = s @ replicate (n - length s) 32"

definition rjust :: "nat \<Rightarrow> pystr \<Rightarrow> pystr" where
  "rjust n s = replicate (n - length s) 32 @ s"

text \<open>\<open>s.rstrip("/")\<close>: drop every trailing slash.\<close>

definition rstrip_slash :: "pystr \<Rightarrow> pystr" where
  "rstrip_slash s = rev (dropWhile (\<lambda>c. c = 47) (rev s))"

subsection \<open>Requests, exceptions and the environment\<close>

text \<open>
  The exceptions the \<open>try\<close> block of \<open>check_endpoint\<close> can meet, by the \<open>except\<close> clause that
  takes them. \<open>HTTPError code reason\<close>: the server answered, and urllib raised the answer
  as an error (it does so for a final status outside 200..299). \<open>URLError reason\<close>: no answer
  was obtained; \<open>reason\<close> is the text of \<open>e.reason\<close>. \<open>OtherException msg\<close>: any other
  subclass of \<open>Exception\<close>, with \<open>str(e) = msg\<close>.
\<close>

datatype exn =
    HTTPError int pystr
  | URLError pystr
  | OtherException pystr

type_synonym 'v dict = "(pystr \<times> 'v) list"

record request =
  req_url :: pystr
  req_data :: "pystr option"
  req_headers :: "pystr dict"
  req_method :: pystr

text \<open>\<open>urlopen w req timeout\<close> either raises or returns a response, of which the script
  reads only \<open>resp.status\<close>.\<close>

type_synonym 'w urlopen = "'w \<Rightarrow> request \<Rightarrow> nat \<Rightarrow> (exn + int) \<times> 'w"

type_synonym 'v dumps = "'v dict \<Rightarrow> exn + pystr"

subsection \<open>check\_endpoint\<close>

text \<open>\<open>d.update(other)\<close>: a key already present keeps its place and takes the new value,
  a new key goes to the end.\<close>

definition dict_update :: "'v dict \<Rightarrow> 'v dict \<Rightarrow> 'v dict" where
  "dict_update d other = fold (\<lambda>(k, v). AList.update k v) other d"

text \<open>Lines 20-22. A dictionary is truthy when it is not empty.\<close>

definition make_headers :: "pystr dict option \<Rightarrow> pystr dict" where
  "make_headers headers =
     (let req_headers = [(ascii ''Content-Type'', ascii ''application/json'')]
      in case headers of
           None \<Rightarrow> req_headers
         | Some h \<Rightarrow> if h = [] then req_headers else dict_update req_headers h)"

text \<open>Line 25: \<open>body = json.dumps(data).encode() if data else None\<close>.\<close>

definition make_body :: "'v dumps \<Rightarrow> 'v dict option \<Rightarrow> exn + pystr option" where
  "make_body dumps data =
     (case data of
        None \<Rightarrow> Inr None
      | Some d \<Rightarrow>
          if d = [] then Inr None
          else (case dumps d of Inl e \<Rightarrow> Inl e | Inr s \<Rightarrow> Inr (Some s)))"

text \<open>Lines 25-28, the \<open>try\<close> block: the result is the exception raised or the pair
  returned.\<close>

definition try_block ::
  "'v dumps \<Rightarrow> 'w urlopen \<Rightarrow> 'w \<Rightarrow> pystr \<Rightarrow> pystr dict \<Rightarrow> pystr \<Rightarrow> 'v dict option
     \<Rightarrow> (exn + bool \<times> pystr) \<times> 'w" where
  "try_block dumps urlopen w url hdrs method data =
     (case make_body dumps data of
        Inl e \<Rightarrow> (Inl e, w)
      | Inr b \<Rightarrow>
          (case urlopen w \<lparr>req_url = url, req_data = b, req_headers = hdrs, req_method = method\<rparr> 10 of
             (Inl e, w') \<Rightarrow> (Inl e, w')
           | (Inr status, w') \<Rightarrow> (Inr (True, ascii ''OK ('' @ str_int status @ ascii '')''), w')))"

text \<open>Lines 29-36, the \<open>except\<close> clauses in their order.\<close>

fun handlers :: "exn \<Rightarrow> bool \<times> pystr" where
  "handlers (HTTPError code reason) =
     (if code \<in> {401, 403} then (True, ascii ''Protected ('' @ str_int code @ ascii '')'')
      else (False, ascii ''HTTP '' @ str_int code @ ascii '': '' @ reason))"
| "handlers (URLError reason) = (False, ascii ''Connection failed: '' @ reason)"
| "handlers (OtherException msg) = (False, msg)"

definition check_endpoint ::
  "'v dumps \<Rightarrow> 'w urlopen \<Rightarrow> 'w \<Rightarrow> pystr \<Rightarrow> pystr \<Rightarrow> pystr \<Rightarrow> 'v dict option
     \<Rightarrow> pystr dict option \<Rightarrow> (bool \<times> pystr) \<times> 'w" where
  "check_endpoint dumps urlopen w base_url path method data headers =
     (let url = base_url @ path;
          hdrs = make_headers headers
      in case try_block dumps urlopen w url hdrs method data of
           (Inr r, w') \<Rightarrow> (r, w')
         | (Inl e, w') \<Rightarrow> (handlers e, w'))"

subsection \<open>main\<close>

text \<open>Lines 50-91: the table of \<open>(method, path, name)\<close> triples, in the source's order.\<close>

type_synonym endpoint = "pystr \<times> pystr \<times> pystr"

definition endpoints :: "endpoint list" where
  "endpoints =
     [(ascii ''GET'', ascii ''/health'', ascii ''Core Health''),
      (ascii ''GET'', ascii ''/api/v1/system/status'', ascii ''System Status''),
      (ascii ''POST'', ascii ''/api/v1/users/login'', ascii ''Login Endpoint''),
      (ascii ''GET'', ascii ''/api/v1/users/me'', ascii ''Current User''),
      (ascii ''GET'', ascii ''/api/v1/printers'', ascii ''List Printers''),
      (ascii ''GET'', ascii ''/api/v1/printers/types'', ascii ''Printer Types''),
      (ascii ''GET'', ascii ''/api/v1/business/clients'', ascii ''Clients''),
      (ascii ''GET'', ascii ''/api/v1/business/orders'', ascii ''Orders''),
      (ascii ''GET'', ascii ''/api/v1/business/quotes/pricing-config'', ascii ''Pricing Config''),
      (ascii ''GET'', ascii ''/api/v1/scheduling/queue'', ascii ''Job Queue''),
      (ascii ''GET'', ascii ''/api/v1/production/history'', ascii ''Print History''),
      (ascii ''GET'', ascii ''/api/v1/materials/spools'', ascii ''Material Inventory''),
      (ascii ''GET'', ascii ''/api/v1/materials/profiles'', ascii ''Material Profiles''),
      (ascii ''GET'', ascii ''/api/v1/config'', ascii ''App Config''),
      (ascii ''GET'', ascii ''/api/v1/analytics/energy'', ascii ''Energy Stats''),
      (ascii ''GET'', ascii ''/api/v1/cost/summary'', ascii ''Cost Summary''),
      (ascii ''GET'', ascii ''/api/v1/reports/types'', ascii ''Report Types''),
      (ascii ''GET'', ascii ''/api/v1/maintenance'', ascii ''Maintenance Schedule''),
      (ascii ''GET'', ascii ''/api/v1/chat/history?channel=general&limit=1'', ascii ''Chat History'')]"

text \<open>The icons, as code points: U+1F512 (lock), U+2705 (check mark), U+274C (cross).\<close>

definition icon_protected :: pystr where "icon_protected = [0x1F512]"
definition icon_passed :: pystr where "icon_passed = [0x2705]"
definition icon_failed :: pystr where "icon_failed = [0x274C]"

text \<open>The state of a run: the three counters of lines 93-95, what has been printed (one
  entry per call of \<open>print\<close>) and the world the requests act on.\<close>

record 'w run_state =
  passed :: int
  failed :: int
  protected :: int
  stdout :: "pystr list"
  world :: 'w

definition print :: "pystr \<Rightarrow> 'w run_state \<Rightarrow> 'w run_state" where
  "print s st = st\<lparr>stdout := stdout st @ [s]\<rparr>"

text \<open>Lines 100-109: choose the icon and increment one counter.\<close>

definition tally :: "bool \<Rightarrow> pystr \<Rightarrow> 'w run_state \<Rightarrow> pystr \<times> 'w run_state" where
  "tally ok status st =
     (if ok then
        (if py_in (ascii ''Protected'') status
         then (icon_protected, st\<lparr>protected := protected st + 1\<rparr>)
         else (icon_passed, st\<lparr>passed := passed st + 1\<rparr>))
      else (icon_failed, st\<lparr>failed := failed st + 1\<rparr>))"

text \<open>Line 111: \<open>f"{icon} {name:<25} {method:>5} {path:<45} {status}"\<close>.\<close>

definition format_line :: "pystr \<Rightarrow> pystr \<Rightarrow> pystr \<Rightarrow> pystr \<Rightarrow> pystr \<Rightarrow> pystr" where
  "format_line icon name method path status =
     icon @ [32] @ ljust 25 name @ [32] @ rjust 5 method @ [32] @ ljust 45 path @ [32] @ status"

text \<open>Lines 97-111, the loop over the table.\<close>

fun main_loop ::
  "'v dumps \<Rightarrow> 'w urlopen \<Rightarrow> pystr \<Rightarrow> endpoint list \<Rightarrow> 'w run_state \<Rightarrow> 'w run_state" where
  "main_loop dumps urlopen base [] st = st"
| "main_loop dumps urlopen base ((method, path, name) # es) st =
     (let ((ok, status), w') = check_endpoint dumps urlopen (world st) base path method None None;
          (icon, st') = tally ok status st
      in main_loop dumps urlopen base es
           (print (format_line icon name method path status) (st'\<lparr>world := w'\<rparr>)))"

text \<open>
  Lines 38-121. \<open>backend\<close> is \<open>args.backend\<close>, the value the argument parser hands over.
  The result is the value \<open>main\<close> returns, which \<open>sys.exit\<close> makes the exit code, and the
  final state. U+1F50D, U+1F4CA and U+26A0 U+FE0F are the icons of the header, the summary
  and the warning.
\<close>

definition main :: "'v dumps \<Rightarrow> 'w urlopen \<Rightarrow> 'w \<Rightarrow> pystr \<Rightarrow> int \<times> 'w run_state" where
  "main dumps urlopen w backend =
     (let base = rstrip_slash backend;
          st0 = \<lparr>passed = 0, failed = 0, protected = 0, stdout = [], world = w\<rparr>;
          st1 = print ([10, 0x1F50D] @ ascii '' Checking backend at: '' @ base @ [10]) st0;
          st2 = print (replicate 60 61) st1;
          st3 = main_loop dumps urlopen base endpoints st2;
          st4 = print (replicate 60 61) st3;
          st5 = print ([10, 0x1F4CA] @ ascii '' Results: '' @ str_int (passed st4)
                       @ ascii '' passed, '' @ str_int (protected st4)
                       @ ascii '' protected, '' @ str_int (failed st4) @ ascii '' failed'') st4
      in if failed st5 = 0
         then (0, print ([10, 0x2705] @ ascii '' Backend is ready for launch!'') st5)
         else (1, print ([10, 0x26A0, 0xFE0F] @ ascii ''  '' @ str_int (failed st5)
                         @ ascii '' endpoint(s) have issues. Check logs.'') st5))"

subsection \<open>The checks of a run, one after the other\<close>

text \<open>The results \<open>(ok, status)\<close> that the successive calls of \<open>check_endpoint\<close> give in a
  run, each request acting on the world the one before left.\<close>

fun check_all ::
  "'v dumps \<Rightarrow> 'w urlopen \<Rightarrow> 'w \<Rightarrow> pystr \<Rightarrow> endpoint list \<Rightarrow> (bool \<times> pystr) list" where
  "check_all dumps urlopen w base [] = []"
| "check_all dumps urlopen w base ((method, path, name) # es) =
     (let (r, w') = check_endpoint dumps urlopen w base path method None None
      in r # check_all dumps urlopen w' base es)"

text \<open>The bucket a result falls in, by the tests of lines 100-109.\<close>

datatype bucket = Passed | Protected | Failed

definition bucket_of :: "bool \<times> pystr \<Rightarrow> bucket" where
  "bucket_of r =
     (if fst r then (if py_in (ascii ''Protected'') (snd r) then Protected else Passed)
      else Failed)"

definition icon_of :: "bucket \<Rightarrow> pystr" where
  "icon_of b = (case b of Passed \<Rightarrow> icon_passed | Protected \<Rightarrow> icon_protected
                | Failed \<Rightarrow> icon_failed)"

definition count_bucket :: "bucket \<Rightarrow> (bool \<times> pystr) list \<Rightarrow> int" where
  "count_bucket b rs = int (length (filter (\<lambda>r. bucket_of r = b) rs))"

definition endpoint_line :: "endpoint \<Rightarrow> bool \<times> pystr \<Rightarrow> pystr" where
  "endpoint_line e r =
     (case e of (method, path, name) \<Rightarrow>
        format_line (icon_of (bucket_of r)) name method path (snd r))"

text \<open>The text of the summary, line 114, for given counts.\<close>

definition summary_line :: "int \<Rightarrow> int \<Rightarrow> int \<Rightarrow> pystr" where
  "summary_line p q f =
     [10, 0x1F4CA] @ ascii '' Results: '' @ str_int p @ ascii '' passed, '' @ str_int q
       @ ascii '' protected, '' @ str_int f @ ascii '' failed''"

text \<open>The bucket of an endpoint in the scenario where every GET is answered with 200 and
  the POST with 401.\<close>

definition expected_bucket :: "endpoint \<Rightarrow> bucket" where
  "expected_bucket e = (case e of (m, p, n) \<Rightarrow> if m = ascii ''GET'' then Passed else Protected)"

subsection \<open>The output format in the words of the specification\<close>

text \<open>
  The specification describes the line as the icon, the label left-padded to 25 characters,
  the method right-padded to 5 characters, the path left-padded to 45 characters and the
  message. To pad a string on the left is to put the spaces before it, on the right to put
  them after it.
\<close>

definition left_pad :: "nat \<Rightarrow> pystr \<Rightarrow> pystr" where
  "left_pad n s = replicate (n - length s) 32 @ s"

definition right_pad :: "nat \<Rightarrow> pystr \<Rightarrow> pystr" where
  "right_pad n s = s @ replicate (n - length s) 32"

definition spec_line :: "pystr \<Rightarrow> pystr \<Rightarrow> pystr \<Rightarrow> pystr \<Rightarrow> pystr \<Rightarrow> pystr" where
  "spec_line icon label method path message =
     icon @ [32] @ left_pad 25 label @ [32] @ right_pad 5 method @ [32] @ left_pad 45 path
       @ [32] @ message"

subsection \<open>What urllib raises when no answer is obtained\<close>



subsection \<open>Example environments\<close>

text \<open>An encoder that raises on every dictionary, as \<open>json.dumps\<close> does with \<open>TypeError\<close> on
  one that holds a value it cannot serialise. The values are opaque here.\<close>

definition dumps_raises :: "unit dumps" where
  "dumps_raises d = Inl (OtherException (ascii ''Object of type set is not JSON serializable''))"

text \<open>\<open>sep.join(xs)\<close>, and an encoder for dictionaries whose values are all \<open>None\<close>
  and whose keys need no escape: \<open>json.dumps({"a": None})\<close> is \<open>{"a": null}\<close>.\<close>

fun join :: "pystr \<Rightarrow> pystr list \<Rightarrow> pystr" where
  "join sep [] = []"
| "join sep [x] = x"
| "join sep (x # y # ys) = x @ sep @ join sep (y # ys)"

definition dumps_nulls :: "unit dumps" where
  "dumps_nulls d =
     Inr ([123] @ join (ascii '', '') (map (\<lambda>(k, v). [34] @ k @ [34] @ ascii '': null'') d)
          @ [125])"


text \<open>A backend that answers every request with status 500 (403, 204).\<close>

definition backend_500 :: "unit urlopen" where
  "backend_500 w r t = (Inl (HTTPError 500 (ascii ''INTERNAL SERVER ERROR'')), w)"

definition backend_403 :: "unit urlopen" where
  "backend_403 w r t = (Inl (HTTPError 403 (ascii ''FORBIDDEN'')), w)"

definition backend_204 :: "unit urlopen" where
  "backend_204 w r t = (Inr 204, w)"

text \<open>A backend behind TLS whose answer never arrives within the timeout once the request
  is sent: the read raises \<open>TimeoutError\<close>, whose text on a TLS socket is the one below.\<close>

definition backend_stalls :: "unit urlopen" where
  "backend_stalls w r t = (Inl (OtherException (ascii ''The read operation timed out'')), w)"

text \<open>A backend that answers every GET with 200 and every other request with 401. The
  world counts the requests received.\<close>

definition backend_ready :: "nat urlopen" where
  "backend_ready w r t =
     (if req_method r = ascii ''GET'' then Inr 200
      else Inl (HTTPError 401 (ascii ''UNAUTHORIZED'')), Suc w)"

definition localhost :: pystr where
  "localhost = ascii ''http://localhost:5000''"

section \<open>Auxiliary facts\<close>

subsection \<open>Strings\<close>

lemma set_str_nat: "set (str_nat n) \<subseteq> {48..57}"
proof (induction n rule: str_nat.induct)
  case (1 n)
  show ?case
  proof (cases "n < 10")
    case True
    then show ?thesis by (subst str_nat.simps) (simp add: digit_def)
  next
    case False
    have "n mod 10 < 10" by simp
    then have "digit (n mod 10) \<in> {48..57}" unfolding digit_def by simp
    with False 1 show ?thesis by (subst str_nat.simps) simp
  qed
qed

lemma startswith_set: "startswith s p \<Longrightarrow> set p \<subseteq> set s"
  by (induction s p rule: startswith.induct) auto

lemma py_in_set: "py_in p s \<Longrightarrow> set p \<subseteq> set s"
proof (induction s)
  case Nil
  then show ?case by simp
next
  case (Cons c cs)
  from Cons.prems have "startswith (c # cs) p \<or> py_in p cs" by simp
  then show ?case
  proof
    assume "startswith (c # cs) p"
    then show ?thesis by (rule startswith_set)
  next
    assume "py_in p cs"
    then have "set p \<subseteq> set cs" by (rule Cons.IH)
    then show ?thesis by auto
  qed
qed

lemma ok_not_protected:
  "\<not> py_in (ascii ''Protected'') (ascii ''OK ('' @ str_int status @ ascii '')'')"
proof
  assume "py_in (ascii ''Protected'') (ascii ''OK ('' @ str_int status @ ascii '')'')"
  then have "set (ascii ''Protected'') \<subseteq> set (ascii ''OK ('' @ str_int status @ ascii '')'')"
    by (rule py_in_set)
  then have "80 \<in> set (str_int status)" by (auto simp: ascii_def)
  moreover have "set (str_int status) \<subseteq> insert 45 {48..57}"
    using set_str_nat by (auto simp: str_int_def)
  ultimately show False by auto
qed

lemma protected_in_protected:
  "py_in (ascii ''Protected'') (ascii ''Protected ('' @ s)"
  by (simp add: ascii_def)

subsection \<open>Outcomes of one check\<close>

lemma check_endpoint_raised:
  assumes "make_body dumps data = Inr b"
    and "urlopen w \<lparr>req_url = base_url @ path, req_data = b,
                    req_headers = make_headers headers, req_method = method\<rparr> 10 = (Inl e, w')"
  shows "check_endpoint dumps urlopen w base_url path method data headers = (handlers e, w')"
  using assms by (simp add: check_endpoint_def try_block_def)

lemma check_endpoint_returned:
  assumes "make_body dumps data = Inr b"
    and "urlopen w \<lparr>req_url = base_url @ path, req_data = b,
                    req_headers = make_headers headers, req_method = method\<rparr> 10 = (Inr status, w')"
  shows "check_endpoint dumps urlopen w base_url path method data headers =
           ((True, ascii ''OK ('' @ str_int status @ ascii '')''), w')"
  using assms by (simp add: check_endpoint_def try_block_def)

lemma check_endpoint_dumps_raised:
  assumes "make_body dumps data = Inl e"
  shows "check_endpoint dumps urlopen w base_url path method data headers = (handlers e, w)"
  using assms by (simp add: check_endpoint_def try_block_def)

lemma make_body_None [simp]: "make_body dumps None = Inr None"
  by (simp add: make_body_def)

subsection \<open>The counters and the loop\<close>

lemma tally_icon: "fst (tally ok status st) = icon_of (bucket_of (ok, status))"
  by (simp add: tally_def icon_of_def bucket_of_def)

lemma tally_passed:
  "passed (snd (tally ok status st)) = passed st + (if bucket_of (ok, status) = Passed then 1 else 0)"
  by (simp add: tally_def bucket_of_def)

lemma tally_protected:
  "protected (snd (tally ok status st)) =
     protected st + (if bucket_of (ok, status) = Protected then 1 else 0)"
  by (simp add: tally_def bucket_of_def)

lemma tally_failed:
  "failed (snd (tally ok status st)) = failed st + (if bucket_of (ok, status) = Failed then 1 else 0)"
  by (simp add: tally_def bucket_of_def)

lemma tally_stdout: "stdout (snd (tally ok status st)) = stdout st"
  by (simp add: tally_def)

lemma tally_world: "world (snd (tally ok status st)) = world st"
  by (simp add: tally_def)

lemma main_loop_Cons:
  assumes "check_endpoint dumps urlopen (world st) base path method None None = ((ok, status), w')"
  shows "main_loop dumps urlopen base ((method, path, name) # es) st =
           main_loop dumps urlopen base es
             (print (format_line (fst (tally ok status st)) name method path status)
                ((snd (tally ok status st))\<lparr>world := w'\<rparr>))"
  using assms by (simp add: case_prod_beta)

lemma check_all_Cons:
  assumes "check_endpoint dumps urlopen w base path method None None = (r, w')"
  shows "check_all dumps urlopen w base ((method, path, name) # es) =
           r # check_all dumps urlopen w' base es"
  using assms by simp

lemma main_loop_passed:
  "passed (main_loop dumps urlopen base es st) =
     passed st + count_bucket Passed (check_all dumps urlopen (world st) base es)"
proof (induction es arbitrary: st)
  case Nil
  then show ?case by (simp add: count_bucket_def)
next
  case (Cons e es)
  obtain m p n where e: "e = (m, p, n)" by (cases e)
  obtain ok status w' where
    c: "check_endpoint dumps urlopen (world st) base p m None None = ((ok, status), w')"
    by (metis surj_pair)
  show ?case
    unfolding e main_loop_Cons [OF c] check_all_Cons [OF c] Cons.IH
    by (simp add: print_def tally_passed count_bucket_def)
qed

lemma main_loop_protected:
  "protected (main_loop dumps urlopen base es st) =
     protected st + count_bucket Protected (check_all dumps urlopen (world st) base es)"
proof (induction es arbitrary: st)
  case Nil
  then show ?case by (simp add: count_bucket_def)
next
  case (Cons e es)
  obtain m p n where e: "e = (m, p, n)" by (cases e)
  obtain ok status w' where
    c: "check_endpoint dumps urlopen (world st) base p m None None = ((ok, status), w')"
    by (metis surj_pair)
  show ?case
    unfolding e main_loop_Cons [OF c] check_all_Cons [OF c] Cons.IH
    by (simp add: print_def tally_protected count_bucket_def)
qed

lemma main_loop_failed:
  "failed (main_loop dumps urlopen base es st) =
     failed st + count_bucket Failed (check_all dumps urlopen (world st) base es)"
proof (induction es arbitrary: st)
  case Nil
  then show ?case by (simp add: count_bucket_def)
next
  case (Cons e es)
  obtain m p n where e: "e = (m, p, n)" by (cases e)
  obtain ok status w' where
    c: "check_endpoint dumps urlopen (world st) base p m None None = ((ok, status), w')"
    by (metis surj_pair)
  show ?case
    unfolding e main_loop_Cons [OF c] check_all_Cons [OF c] Cons.IH
    by (simp add: print_def tally_failed count_bucket_def)
qed

lemma endpoint_line_triple:
  "endpoint_line (method, path, name) (ok, status) =
     format_line (icon_of (bucket_of (ok, status))) name method path status"
  by (simp add: endpoint_line_def)

lemma main_loop_stdout:
  "stdout (main_loop dumps urlopen base es st) =
     stdout st @ map2 endpoint_line es (check_all dumps urlopen (world st) base es)"
proof (induction es arbitrary: st)
  case Nil
  then show ?case by simp
next
  case (Cons e es)
  obtain m p n where e: "e = (m, p, n)" by (cases e)
  obtain ok status w' where
    c: "check_endpoint dumps urlopen (world st) base p m None None = ((ok, status), w')"
    by (metis surj_pair)
  show ?case
    unfolding e main_loop_Cons [OF c] check_all_Cons [OF c] Cons.IH
    by (simp add: print_def tally_stdout tally_icon endpoint_line_triple)
qed

lemma length_check_all: "length (check_all dumps urlopen w base es) = length es"
proof (induction es arbitrary: w)
  case Nil
  then show ?case by simp
next
  case (Cons e es)
  obtain m p n where e: "e = (m, p, n)" by (cases e)
  obtain r w' where
    c: "check_endpoint dumps urlopen w base p m None None = (r, w')"
    by (metis surj_pair)
  show ?case unfolding e check_all_Cons [OF c] by (simp add: Cons.IH)
qed

lemma count_bucket_total:
  "count_bucket Passed rs + count_bucket Protected rs + count_bucket Failed rs = int (length rs)"
proof (induction rs)
  case Nil
  then show ?case by (simp add: count_bucket_def)
next
  case (Cons r rs)
  then show ?case by (cases "bucket_of r") (simp_all add: count_bucket_def)
qed

lemma count_bucket_zero: "(count_bucket b rs = 0) = (b \<notin> set (map bucket_of rs))"
  by (auto simp: count_bucket_def filter_empty_conv)

lemma length_endpoints: "length endpoints = 19"
  by (simp add: endpoints_def)

subsection \<open>A whole run\<close>

lemma main_exit:
  "fst (main dumps urlopen w backend) =
     (if failed (snd (main dumps urlopen w backend)) = 0 then 0 else 1)"
  by (simp add: main_def Let_def print_def)

lemma main_passed:
  "passed (snd (main dumps urlopen w backend)) =
     count_bucket Passed (check_all dumps urlopen w (rstrip_slash backend) endpoints)"
  by (simp add: main_def Let_def print_def main_loop_passed)

lemma main_protected:
  "protected (snd (main dumps urlopen w backend)) =
     count_bucket Protected (check_all dumps urlopen w (rstrip_slash backend) endpoints)"
  by (simp add: main_def Let_def print_def main_loop_protected)

lemma main_failed:
  "failed (snd (main dumps urlopen w backend)) =
     count_bucket Failed (check_all dumps urlopen w (rstrip_slash backend) endpoints)"
  by (simp add: main_def Let_def print_def main_loop_failed)

lemma main_stdout:
  "\<exists>header verdict.
     stdout (snd (main dumps urlopen w backend)) =
       [header, replicate 60 61]
       @ map2 endpoint_line endpoints (check_all dumps urlopen w (rstrip_slash backend) endpoints)
       @ [replicate 60 61,
          summary_line (passed (snd (main dumps urlopen w backend)))
            (protected (snd (main dumps urlopen w backend)))
            (failed (snd (main dumps urlopen w backend))),
          verdict]"
  by (simp add: main_def Let_def print_def main_loop_stdout summary_line_def)

lemma main_lines:
  "take 19 (drop 2 (stdout (snd (main dumps urlopen w backend)))) =
     map2 endpoint_line endpoints (check_all dumps urlopen w (rstrip_slash backend) endpoints)"
proof -
  obtain header verdict where
    "stdout (snd (main dumps urlopen w backend)) =
       [header, replicate 60 61]
       @ map2 endpoint_line endpoints (check_all dumps urlopen w (rstrip_slash backend) endpoints)
       @ [replicate 60 61,
          summary_line (passed (snd (main dumps urlopen w backend)))
            (protected (snd (main dumps urlopen w backend)))
            (failed (snd (main dumps urlopen w backend))),
          verdict]"
    using main_stdout [of dumps urlopen w backend] by blast
  then show ?thesis
    by (simp add: length_check_all length_endpoints)
qed

lemma main_length_stdout: "length (stdout (snd (main dumps urlopen w backend))) = 24"
proof -
  obtain header verdict where
    "stdout (snd (main dumps urlopen w backend)) =
       [header, replicate 60 61]
       @ map2 endpoint_line endpoints (check_all dumps urlopen w (rstrip_slash backend) endpoints)
       @ [replicate 60 61,
          summary_line (passed (snd (main dumps urlopen w backend)))
            (protected (snd (main dumps urlopen w backend)))
            (failed (snd (main dumps urlopen w backend))),
          verdict]"
    using main_stdout [of dumps urlopen w backend] by blast
  then show ?thesis
    by (simp add: length_check_all length_endpoints)
qed

subsection \<open>The launch scenario\<close>

lemma count_bucket_map:
  "count_bucket b rs = int (length (filter (\<lambda>x. x = b) (map bucket_of rs)))"
  by (simp add: count_bucket_def filter_map comp_def)

lemma check_endpoint_get_passed:
  assumes "\<And>w r. req_method r = ascii ''GET'' \<Longrightarrow> fst (urlopen w r 10) = Inr 200"
  shows "bucket_of (fst (check_endpoint dumps urlopen w base p (ascii ''GET'') None None)) = Passed"
proof -
  let ?r = "\<lparr>req_url = base @ p, req_data = None, req_headers = make_headers None,
              req_method = ascii ''GET''\<rparr>"
  have "fst (urlopen w ?r 10) = Inr 200" by (rule assms) simp
  then obtain w' where "urlopen w ?r 10 = (Inr 200, w')" by (cases "urlopen w ?r 10") simp
  then have "check_endpoint dumps urlopen w base p (ascii ''GET'') None None =
               ((True, ascii ''OK ('' @ str_int 200 @ ascii '')''), w')"
    by (simp add: check_endpoint_def try_block_def)
  then show ?thesis
    using ok_not_protected [of 200] by (simp add: bucket_of_def)
qed

lemma check_endpoint_post_protected:
  assumes "\<And>w r. req_method r = ascii ''POST'' \<Longrightarrow>
             \<exists>reason. fst (urlopen w r 10) = Inl (HTTPError 401 reason)"
  shows "bucket_of (fst (check_endpoint dumps urlopen w base p (ascii ''POST'') None None))
           = Protected"
proof -
  let ?r = "\<lparr>req_url = base @ p, req_data = None, req_headers = make_headers None,
              req_method = ascii ''POST''\<rparr>"
  have "\<exists>reason. fst (urlopen w ?r 10) = Inl (HTTPError 401 reason)" by (rule assms) simp
  then obtain reason w' where "urlopen w ?r 10 = (Inl (HTTPError 401 reason), w')"
    by (cases "urlopen w ?r 10") auto
  then have "check_endpoint dumps urlopen w base p (ascii ''POST'') None None =
               ((True, ascii ''Protected ('' @ str_int 401 @ ascii '')''), w')"
    by (simp add: check_endpoint_def try_block_def)
  then show ?thesis
    using protected_in_protected [of "str_int 401 @ ascii '')''"] by (simp add: bucket_of_def)
qed

lemma check_all_ready:
  assumes get: "\<And>w r. req_method r = ascii ''GET'' \<Longrightarrow> fst (urlopen w r 10) = Inr 200"
    and post: "\<And>w r. req_method r = ascii ''POST'' \<Longrightarrow>
             \<exists>reason. fst (urlopen w r 10) = Inl (HTTPError 401 reason)"
    and es: "set (map fst es) \<subseteq> {ascii ''GET'', ascii ''POST''}"
  shows "map bucket_of (check_all dumps urlopen w base es) = map expected_bucket es"
  using es
proof (induction es arbitrary: w)
  case Nil
  then show ?case by simp
next
  case (Cons e es)
  obtain m p n where e: "e = (m, p, n)" by (cases e)
  obtain r w' where c: "check_endpoint dumps urlopen w base p m None None = (r, w')"
    by (metis surj_pair)
  from Cons.prems e have m: "m = ascii ''GET'' \<or> m = ascii ''POST''" by simp
  have "bucket_of r = expected_bucket e"
  proof (cases "m = ascii ''GET''")
    case True
    with check_endpoint_get_passed [of urlopen dumps w base p, OF get] c e
    show ?thesis by (simp add: expected_bucket_def)
  next
    case False
    with m have "m = ascii ''POST''" by simp
    with check_endpoint_post_protected [of urlopen dumps w base p, OF post] c e False
    show ?thesis by (simp add: expected_bucket_def)
  qed
  moreover have "map bucket_of (check_all dumps urlopen w' base es) = map expected_bucket es"
    using Cons.prems by (intro Cons.IH) simp
  ultimately show ?case unfolding e check_all_Cons [OF c] by simp
qed

lemma expected_buckets_endpoints:
  "map expected_bucket endpoints =
     [Passed, Passed, Protected] @ replicate 16 Passed"
  by code_simp

lemma endpoint_methods_all:
  "list_all (\<lambda>e. fst e = ascii ''GET'' \<or> fst e = ascii ''POST'') endpoints"
  by code_simp

lemma endpoint_methods: "set (map fst endpoints) \<subseteq> {ascii ''GET'', ascii ''POST''}"
  using endpoint_methods_all by (auto simp: list_all_iff)

lemma count_get_endpoints: "length (filter (\<lambda>e. fst e = ascii ''GET'') endpoints) = 18"
  by code_simp

lemma count_post_endpoints: "length (filter (\<lambda>e. fst e = ascii ''POST'') endpoints) = 1"
  by code_simp

subsection \<open>The first line of a run\<close>

lemma rstrip_localhost: "rstrip_slash localhost = localhost"
  by (simp add: rstrip_slash_def localhost_def ascii_def)

lemma first_result:
  "check_all dumps_nulls backend_ready 0 localhost endpoints ! 0 = (True, ascii ''OK (200)'')"
  by code_simp

lemma first_endpoint: "endpoints ! 0 = (ascii ''GET'', ascii ''/health'', ascii ''Core Health'')"
  by (simp add: endpoints_def)

lemma first_line:
  "endpoint_line (ascii ''GET'', ascii ''/health'', ascii ''Core Health'') (True, ascii ''OK (200)'')
     = icon_passed @ [32] @ ascii ''Core Health'' @ replicate 14 32 @ [32]
       @ replicate 2 32 @ ascii ''GET'' @ [32] @ ascii ''/health'' @ replicate 38 32 @ [32]
       @ ascii ''OK (200)''"
  by code_simp

subsection \<open>The columns of the table\<close>

lemma endpoint_widths:
  "map (\<lambda>(method, path, name).
          (length (ljust 25 name), length (rjust 5 method), length (ljust 45 path))) endpoints
     = replicate 19 (25, 5, 45)"
  by code_simp

subsection \<open>An endpoint that requires authentication\<close>

lemma check_all_nth_protected:
  assumes u: "\<And>w. \<exists>reason. fst (urlopen w \<lparr>req_url = base @ path, req_data = None,
                 req_headers = make_headers None, req_method = meth\<rparr> 10)
               = Inl (HTTPError code reason)"
    and c: "code = 401 \<or> code = 403"
  shows "i < length es \<Longrightarrow> es ! i = (meth, path, name) \<Longrightarrow>
         check_all dumps urlopen w base es ! i =
           (True, ascii ''Protected ('' @ str_int code @ ascii '')'')"
proof (induction es arbitrary: i w)
  case Nil
  then show ?case by simp
next
  case (Cons e es)
  obtain m p n where e: "e = (m, p, n)" by (cases e)
  obtain r w' where k: "check_endpoint dumps urlopen w base p m None None = (r, w')"
    by (metis surj_pair)
  show ?case
  proof (cases i)
    case 0
    with Cons.prems e have mp: "m = meth" "p = path" by simp_all
    let ?q = "\<lparr>req_url = base @ path, req_data = None, req_headers = make_headers None,
                req_method = meth\<rparr>"
    from u [of w] obtain reason where "fst (urlopen w ?q 10) = Inl (HTTPError code reason)"
      by blast
    then obtain w2 where "urlopen w ?q 10 = (Inl (HTTPError code reason), w2)"
      by (cases "urlopen w ?q 10") simp
    then have "check_endpoint dumps urlopen w base path meth None None =
                 (handlers (HTTPError code reason), w2)"
      by (simp add: check_endpoint_def try_block_def)
    with k mp have "r = handlers (HTTPError code reason)" by simp
    with c have "r = (True, ascii ''Protected ('' @ str_int code @ ascii '')'')" by auto
    with 0 show ?thesis unfolding e check_all_Cons [OF k] by simp
  next
    case (Suc j)
    with Cons.prems have "j < length es" "es ! j = (meth, path, name)" by simp_all
    then have "check_all dumps urlopen w' base es ! j =
                 (True, ascii ''Protected ('' @ str_int code @ ascii '')'')"
      by (rule Cons.IH)
    with Suc show ?thesis unfolding e check_all_Cons [OF k] by simp
  qed
qed

lemma bucket_of_protected:
  "bucket_of (True, ascii ''Protected ('' @ s) = Protected"
  using protected_in_protected [of s] by (simp add: bucket_of_def)

lemma main_loop_protected_step:
  assumes "urlopen (world st) \<lparr>req_url = base @ path, req_data = None,
             req_headers = make_headers None, req_method = meth\<rparr> 10
           = (Inl (HTTPError code reason), w')"
    and "code = 401 \<or> code = 403"
  shows "main_loop dumps urlopen base ((meth, path, name) # es) st =
           main_loop dumps urlopen base es
             (print (format_line icon_protected name meth path
                       (ascii ''Protected ('' @ str_int code @ ascii '')''))
                (st\<lparr>protected := protected st + 1, world := w'\<rparr>))"
proof -
  have h: "handlers (HTTPError code reason) =
             (True, ascii ''Protected ('' @ str_int code @ ascii '')'')"
    using assms(2) by auto
  have k: "check_endpoint dumps urlopen (world st) base path meth None None =
          ((True, ascii ''Protected ('' @ str_int code @ ascii '')''), w')"
    using assms(1) h by (simp add: check_endpoint_def try_block_def)
  have t: "tally True (ascii ''Protected ('' @ str_int code @ ascii '')'') st =
             (icon_protected, st\<lparr>protected := protected st + 1\<rparr>)"
    unfolding tally_def using protected_in_protected by simp
  show ?thesis unfolding main_loop_Cons [OF k] t by simp
qed

lemma count_bucket_pos:
  "i < length rs \<Longrightarrow> bucket_of (rs ! i) = b \<Longrightarrow> 0 < count_bucket b rs"
proof -
  assume a: "i < length rs" "bucket_of (rs ! i) = b"
  then have "b \<in> set (map bucket_of rs)" by (metis length_map nth_map nth_mem)
  then have "count_bucket b rs \<noteq> 0" by (simp add: count_bucket_zero)
  moreover have "0 \<le> count_bucket b rs" by (simp add: count_bucket_def)
  ultimately show ?thesis by simp
qed

lemma main_stdout_nth:
  assumes "i < 19"
  shows "stdout (snd (main dumps urlopen w backend)) ! (2 + i) =
           endpoint_line (endpoints ! i)
             (check_all dumps urlopen w (rstrip_slash backend) endpoints ! i)"
proof -
  let ?out = "stdout (snd (main dumps urlopen w backend))"
  let ?rs = "check_all dumps urlopen w (rstrip_slash backend) endpoints"
  have len: "length ?out = 24" by (rule main_length_stdout)
  have "?out ! (2 + i) = drop 2 ?out ! i" using len by simp
  also have "\<dots> = take 19 (drop 2 ?out) ! i" using assms by simp
  also have "\<dots> = map2 endpoint_line endpoints ?rs ! i" by (simp only: main_lines)
  also have "\<dots> = endpoint_line (endpoints ! i) (?rs ! i)"
    using assms by (simp add: length_check_all length_endpoints)
  finally show ?thesis .
qed

section \<open>Results\<close>

text \<open>
  C1. In every run the value \<open>main\<close> returns, which becomes the exit code, is 0 when the
  \<open>failed\<close> counter is 0 after the loop and 1 otherwise. The counter is the number of
  endpoints that fell in the failed bucket, so the exit code is 0 exactly when no endpoint
  was classified as failed.
\<close>

theorem main_exit_code:
  "fst (main dumps urlopen w backend) =
     (if failed (snd (main dumps urlopen w backend)) = 0 then 0 else 1)
   \<and> failed (snd (main dumps urlopen w backend)) =
       count_bucket Failed (check_all dumps urlopen w (rstrip_slash backend) endpoints)
   \<and> (fst (main dumps urlopen w backend) = 0) =
       (Failed \<notin> set (map bucket_of (check_all dumps urlopen w (rstrip_slash backend) endpoints)))"
proof -
  have "(fst (main dumps urlopen w backend) = 0) =
          (count_bucket Failed (check_all dumps urlopen w (rstrip_slash backend) endpoints) = 0)"
    by (simp add: main_exit main_failed)
  then show ?thesis
    by (simp only: count_bucket_zero main_exit main_failed simp_thms)
qed


text \<open>
  C3. When the request ends in an HTTP error with status 401 or 403, \<open>check_endpoint\<close>
  returns \<open>ok = True\<close> with the message \<open>Protected (<code>)\<close>. The loop of \<open>main\<close> then
  counts the endpoint as protected and not as failed: the pass of the loop over such an
  endpoint prints its line with the lock icon and increments \<open>protected\<close> only, and in a run
  of \<open>main\<close> an endpoint of the table whose request ends so has its result in the protected
  bucket, its line printed with the lock icon, and is counted by \<open>protected\<close>, not by \<open>failed\<close>.
\<close>

theorem check_endpoint_protected:
  assumes c: "code = 401 \<or> code = 403"
  shows
    "(make_body dumps data = Inr b
        \<and> urlopen w \<lparr>req_url = base_url @ path, req_data = b,
                      req_headers = make_headers headers, req_method = meth\<rparr> 10
            = (Inl (HTTPError code reason), w')
      \<longrightarrow> check_endpoint dumps urlopen w base_url path meth data headers =
            ((True, ascii ''Protected ('' @ str_int code @ ascii '')''), w'))
     \<and> tally True (ascii ''Protected ('' @ str_int code @ ascii '')'') st =
         (icon_protected, st\<lparr>protected := protected st + 1\<rparr>)
     \<and> (urlopen (world st) \<lparr>req_url = base_url @ path, req_data = None,
                      req_headers = make_headers None, req_method = meth\<rparr> 10
            = (Inl (HTTPError code reason), w')
      \<longrightarrow> main_loop dumps urlopen base_url ((meth, path, name) # es) st =
            main_loop dumps urlopen base_url es
              (print (format_line icon_protected name meth path
                        (ascii ''Protected ('' @ str_int code @ ascii '')''))
                 (st\<lparr>protected := protected st + 1, world := w'\<rparr>))
          \<and> protected (main_loop dumps urlopen base_url ((meth, path, name) # es) st) =
              protected st + 1 + count_bucket Protected (check_all dumps urlopen w' base_url es)
          \<and> failed (main_loop dumps urlopen base_url ((meth, path, name) # es) st) =
              failed st + count_bucket Failed (check_all dumps urlopen w' base_url es)
          \<and> passed (main_loop dumps urlopen base_url ((meth, path, name) # es) st) =
              passed st + count_bucket Passed (check_all dumps urlopen w' base_url es))
     \<and> (i < 19 \<and> endpoints ! i = (meth, path, name)
        \<and> (\<forall>v. \<exists>r. fst (urlopen v \<lparr>req_url = rstrip_slash backend @ path, req_data = None,
                      req_headers = make_headers None, req_method = meth\<rparr> 10)
                   = Inl (HTTPError code r))
      \<longrightarrow> check_all dumps urlopen w0 (rstrip_slash backend) endpoints ! i =
            (True, ascii ''Protected ('' @ str_int code @ ascii '')'')
          \<and> bucket_of (check_all dumps urlopen w0 (rstrip_slash backend) endpoints ! i) = Protected
          \<and> stdout (snd (main dumps urlopen w0 backend)) ! (2 + i) =
              format_line icon_protected name meth path
                (ascii ''Protected ('' @ str_int code @ ascii '')'')
          \<and> protected (snd (main dumps urlopen w0 backend)) =
              count_bucket Protected (check_all dumps urlopen w0 (rstrip_slash backend) endpoints)
          \<and> failed (snd (main dumps urlopen w0 backend)) =
              count_bucket Failed (check_all dumps urlopen w0 (rstrip_slash backend) endpoints)
          \<and> 0 < protected (snd (main dumps urlopen w0 backend))
          \<and> failed (snd (main dumps urlopen w0 backend)) \<le> 18)"
proof -
  let ?msg = "ascii ''Protected ('' @ str_int code @ ascii '')''"
  have h: "handlers (HTTPError code reason) = (True, ?msg)"
    using c by auto
  have p1: "make_body dumps data = Inr b
        \<and> urlopen w \<lparr>req_url = base_url @ path, req_data = b,
                      req_headers = make_headers headers, req_method = meth\<rparr> 10
            = (Inl (HTTPError code reason), w')
      \<longrightarrow> check_endpoint dumps urlopen w base_url path meth data headers = ((True, ?msg), w')"
    using h by (simp add: check_endpoint_def try_block_def)
  have p2: "tally True ?msg st = (icon_protected, st\<lparr>protected := protected st + 1\<rparr>)"
    unfolding tally_def using protected_in_protected by simp
  have p3: "main_loop dumps urlopen base_url ((meth, path, name) # es) st =
            main_loop dumps urlopen base_url es
              (print (format_line icon_protected name meth path ?msg)
                 (st\<lparr>protected := protected st + 1, world := w'\<rparr>))
          \<and> protected (main_loop dumps urlopen base_url ((meth, path, name) # es) st) =
              protected st + 1 + count_bucket Protected (check_all dumps urlopen w' base_url es)
          \<and> failed (main_loop dumps urlopen base_url ((meth, path, name) # es) st) =
              failed st + count_bucket Failed (check_all dumps urlopen w' base_url es)
          \<and> passed (main_loop dumps urlopen base_url ((meth, path, name) # es) st) =
              passed st + count_bucket Passed (check_all dumps urlopen w' base_url es)"
    if u: "urlopen (world st) \<lparr>req_url = base_url @ path, req_data = None,
                      req_headers = make_headers None, req_method = meth\<rparr> 10
            = (Inl (HTTPError code reason), w')"
  proof -
    note s = main_loop_protected_step [of urlopen st base_url path meth code reason w' dumps name es,
        OF u c]
    show ?thesis
      unfolding s main_loop_protected main_loop_failed main_loop_passed
      by (simp add: print_def)
  qed
  have p4: "check_all dumps urlopen w0 (rstrip_slash backend) endpoints ! i = (True, ?msg)
          \<and> bucket_of (check_all dumps urlopen w0 (rstrip_slash backend) endpoints ! i) = Protected
          \<and> stdout (snd (main dumps urlopen w0 backend)) ! (2 + i) =
              format_line icon_protected name meth path ?msg
          \<and> protected (snd (main dumps urlopen w0 backend)) =
              count_bucket Protected (check_all dumps urlopen w0 (rstrip_slash backend) endpoints)
          \<and> failed (snd (main dumps urlopen w0 backend)) =
              count_bucket Failed (check_all dumps urlopen w0 (rstrip_slash backend) endpoints)
          \<and> 0 < protected (snd (main dumps urlopen w0 backend))
          \<and> failed (snd (main dumps urlopen w0 backend)) \<le> 18"
    if i: "i < 19" and e: "endpoints ! i = (meth, path, name)"
      and u: "\<forall>v. \<exists>r. fst (urlopen v \<lparr>req_url = rstrip_slash backend @ path, req_data = None,
                      req_headers = make_headers None, req_method = meth\<rparr> 10)
                   = Inl (HTTPError code r)"
  proof -
    let ?rs = "check_all dumps urlopen w0 (rstrip_slash backend) endpoints"
    from i have il: "i < length endpoints" by (simp add: length_endpoints)
    have r: "?rs ! i = (True, ?msg)"
      using u c il e by (intro check_all_nth_protected) auto
    have b: "bucket_of (?rs ! i) = Protected"
      unfolding r by (rule bucket_of_protected)
    have l: "stdout (snd (main dumps urlopen w0 backend)) ! (2 + i) =
               format_line icon_protected name meth path ?msg"
      unfolding main_stdout_nth [OF i] e r endpoint_line_triple bucket_of_protected
      by (simp add: icon_of_def)
    have q: "0 < count_bucket Protected ?rs"
      using il b by (intro count_bucket_pos [of i]) (simp_all add: length_check_all)
    have "count_bucket Passed ?rs + count_bucket Protected ?rs + count_bucket Failed ?rs = 19"
      by (simp add: count_bucket_total length_check_all length_endpoints)
    moreover have "0 \<le> count_bucket Passed ?rs" by (simp add: count_bucket_def)
    ultimately have f: "count_bucket Failed ?rs \<le> 18" using q by linarith
    from r b l q f show ?thesis
      by (simp only: main_protected main_failed simp_thms)
  qed
  from p1 p2 p3 p4 show ?thesis by blast
qed

theorem check_endpoint_protected_witness:
  "check_endpoint dumps_raises backend_403 () localhost (ascii ''/api/v1/users/me'') (ascii ''GET'')
      None None = ((True, ascii ''Protected (403)''), ())
   \<and> tally True (ascii ''Protected (403)'')
        \<lparr>passed = 1, failed = 0, protected = 0, stdout = [], world = ()\<rparr> =
       (icon_protected, \<lparr>passed = 1, failed = 0, protected = 1, stdout = [], world = ()\<rparr>)
   \<and> main_loop dumps_raises backend_403 localhost
        [(ascii ''GET'', ascii ''/api/v1/users/me'', ascii ''Current User'')]
        \<lparr>passed = 1, failed = 0, protected = 0, stdout = [], world = ()\<rparr> =
       \<lparr>passed = 1, failed = 0, protected = 1,
        stdout = [format_line icon_protected (ascii ''Current User'') (ascii ''GET'')
                    (ascii ''/api/v1/users/me'') (ascii ''Protected (403)'')],
        world = ()\<rparr>
   \<and> stdout (snd (main dumps_raises backend_403 () localhost)) ! 5 =
       format_line icon_protected (ascii ''Current User'') (ascii ''GET'')
         (ascii ''/api/v1/users/me'') (ascii ''Protected (403)'')
   \<and> 0 < protected (snd (main dumps_raises backend_403 () localhost))
   \<and> failed (snd (main dumps_raises backend_403 () localhost)) \<le> 18"
proof -
  let ?st = "\<lparr>passed = 1, failed = 0, protected = 0, stdout = [], world = ()\<rparr>"
  have s: "ascii ''Protected ('' @ str_int 403 @ ascii '')'' = ascii ''Protected (403)''"
    by code_simp
  have c: "(403::int) = 401 \<or> (403::int) = 403" by simp
  have u1: "make_body dumps_raises None = Inr None
        \<and> backend_403 () \<lparr>req_url = localhost @ ascii ''/api/v1/users/me'', req_data = None,
                    req_headers = make_headers None, req_method = ascii ''GET''\<rparr> 10
           = (Inl (HTTPError 403 (ascii ''FORBIDDEN'')), ())"
    by (simp add: backend_403_def)
  have u2: "backend_403 (world ?st) \<lparr>req_url = localhost @ ascii ''/api/v1/users/me'',
                    req_data = None, req_headers = make_headers None,
                    req_method = ascii ''GET''\<rparr> 10
           = (Inl (HTTPError 403 (ascii ''FORBIDDEN'')), ())"
    by (simp add: backend_403_def)
  have e: "endpoints ! 3 = (ascii ''GET'', ascii ''/api/v1/users/me'', ascii ''Current User'')"
    by (simp add: endpoints_def)
  have u3: "(3::nat) < 19 \<and> endpoints ! 3 = (ascii ''GET'', ascii ''/api/v1/users/me'', ascii ''Current User'')
        \<and> (\<forall>v. \<exists>r. fst (backend_403 v \<lparr>req_url = rstrip_slash localhost @ ascii ''/api/v1/users/me'',
                      req_data = None, req_headers = make_headers None,
                      req_method = ascii ''GET''\<rparr> 10)
                   = Inl (HTTPError 403 r))"
    using e by (simp add: backend_403_def)
  note T = check_endpoint_protected [where code = 403 and dumps = dumps_raises
      and urlopen = backend_403 and data = None and b = None and headers = None
      and w = "()" and w' = "()" and base_url = localhost
      and path = "ascii ''/api/v1/users/me''" and meth = "ascii ''GET''"
      and name = "ascii ''Current User''" and reason = "ascii ''FORBIDDEN''"
      and st = ?st and es = "[]" and i = 3 and backend = localhost and ?w0.0 = "()", OF c,
      unfolded s]
  from T u1 have a1: "check_endpoint dumps_raises backend_403 () localhost
      (ascii ''/api/v1/users/me'') (ascii ''GET'') None None = ((True, ascii ''Protected (403)''), ())"
    by blast
  from T have a2: "tally True (ascii ''Protected (403)'') ?st =
       (icon_protected, ?st\<lparr>protected := protected ?st + 1\<rparr>)"
    by blast
  from T u2 have a3: "main_loop dumps_raises backend_403 localhost
        [(ascii ''GET'', ascii ''/api/v1/users/me'', ascii ''Current User'')] ?st =
       main_loop dumps_raises backend_403 localhost []
         (print (format_line icon_protected (ascii ''Current User'') (ascii ''GET'')
                    (ascii ''/api/v1/users/me'') (ascii ''Protected (403)''))
            (?st\<lparr>protected := protected ?st + 1, world := ()\<rparr>))"
    by blast
  from T u3 have a4: "stdout (snd (main dumps_raises backend_403 () localhost)) ! (2 + 3) =
       format_line icon_protected (ascii ''Current User'') (ascii ''GET'')
         (ascii ''/api/v1/users/me'') (ascii ''Protected (403)'')
     \<and> 0 < protected (snd (main dumps_raises backend_403 () localhost))
     \<and> failed (snd (main dumps_raises backend_403 () localhost)) \<le> 18"
    by blast
  have n: "(2::nat) + 3 = 5" by simp
  from a1 a2 a3 a4 show ?thesis
    unfolding n by (simp add: print_def)
qed

text \<open>
  C4. When the request ends in an HTTP-level error whose status is neither 401 nor 403,
  \<open>check_endpoint\<close> returns \<open>ok = False\<close> and the message \<open>HTTP <code>: <reason>\<close>.
\<close>

theorem check_endpoint_http_error:
  assumes "make_body dumps data = Inr b"
    and "urlopen w \<lparr>req_url = base_url @ path, req_data = b,
                    req_headers = make_headers headers, req_method = method\<rparr> 10
           = (Inl (HTTPError code reason), w')"
    and "code \<noteq> 401" and "code \<noteq> 403"
  shows "check_endpoint dumps urlopen w base_url path method data headers =
           ((False, ascii ''HTTP '' @ str_int code @ ascii '': '' @ reason), w')"
  using assms by (simp add: check_endpoint_def try_block_def)

theorem check_endpoint_http_error_witness:
  "check_endpoint dumps_raises backend_500 () localhost (ascii ''/health'') (ascii ''GET'')
      None None = ((False, ascii ''HTTP 500: INTERNAL SERVER ERROR''), ())"
proof -
  have s: "str_int 500 = ascii ''500''" by code_simp
  have u: "backend_500 () \<lparr>req_url = localhost @ ascii ''/health'', req_data = None,
                    req_headers = make_headers None, req_method = ascii ''GET''\<rparr> 10
           = (Inl (HTTPError 500 (ascii ''INTERNAL SERVER ERROR'')), ())"
    by (simp add: backend_500_def)
  show ?thesis
    using check_endpoint_http_error [where urlopen = backend_500 and w = "()" and data = None
        and dumps = dumps_raises and headers = None and code = 500, OF make_body_None u]
    by (simp add: s ascii_def)
qed




text \<open>
  C6, as stated: every HTTP response received without a transport error gives \<open>ok = True\<close>
  and \<open>OK (<status>)\<close>. A backend that answers 500 is a response received without any
  transport error, and the result is \<open>ok = False\<close> with \<open>HTTP 500: ...\<close>.
\<close>

theorem check_endpoint_ok_counterexample:
  "fst (check_endpoint dumps_raises backend_500 () localhost (ascii ''/health'') (ascii ''GET'')
          None None) = (False, ascii ''HTTP 500: INTERNAL SERVER ERROR'')
   \<and> fst (check_endpoint dumps_raises backend_500 () localhost (ascii ''/health'') (ascii ''GET'')
          None None) \<noteq> (True, ascii ''OK (500)'')"
proof -
  have s: "str_int 500 = ascii ''500''" by code_simp
  show ?thesis
    by (simp add: check_endpoint_def try_block_def backend_500_def s ascii_def)
qed

text \<open>
  C6, amended: every response that \<open>urlopen\<close> returns, rather than raises as an HTTP-level
  error, gives \<open>ok = True\<close> and the message \<open>OK (<status>)\<close> with that response's status.
\<close>

theorem check_endpoint_ok:
  assumes "make_body dumps data = Inr b"
    and "urlopen w \<lparr>req_url = base_url @ path, req_data = b,
                    req_headers = make_headers headers, req_method = method\<rparr> 10
           = (Inr status, w')"
  shows "check_endpoint dumps urlopen w base_url path method data headers =
           ((True, ascii ''OK ('' @ str_int status @ ascii '')''), w')"
  using assms by (simp add: check_endpoint_def try_block_def)

theorem check_endpoint_ok_witness:
  "check_endpoint dumps_raises backend_204 () localhost (ascii ''/health'') (ascii ''GET'')
      None None = ((True, ascii ''OK (204)''), ())"
proof -
  have s: "str_int 204 = ascii ''204''" by code_simp
  have u: "backend_204 () \<lparr>req_url = localhost @ ascii ''/health'', req_data = None,
                    req_headers = make_headers None, req_method = ascii ''GET''\<rparr> 10
           = (Inr 204, ())"
    by (simp add: backend_204_def)
  show ?thesis
    using check_endpoint_ok [where urlopen = backend_204 and w = "()" and data = None
        and dumps = dumps_raises and headers = None, OF make_body_None u]
    by (simp add: s ascii_def)
qed

text \<open>
  C7. Whatever exception the \<open>try\<close> block meets, from the encoding of the body or from the
  request, \<open>check_endpoint\<close> returns the pair its \<open>except\<close> clauses compute; one that is
  neither \<open>HTTPError\<close> nor \<open>URLError\<close> gives \<open>ok = False\<close> and its text. Whatever the
  outcomes, a run checks all 19 endpoints of the table and prints a line for each, in order.
\<close>

theorem errors_never_abort_the_run:
  "(d \<noteq> [] \<and> dumps d = Inl e \<longrightarrow>
      check_endpoint dumps urlopen w base_url path meth (Some d) headers = (handlers e, w))
   \<and> (make_body dumps data = Inr b
       \<and> urlopen w \<lparr>req_url = base_url @ path, req_data = b,
                    req_headers = make_headers headers, req_method = meth\<rparr> 10 = (Inl e, w')
      \<longrightarrow> check_endpoint dumps urlopen w base_url path meth data headers = (handlers e, w'))
   \<and> handlers (OtherException msg) = (False, msg)
   \<and> length (check_all dumps urlopen w (rstrip_slash backend) endpoints) = 19
   \<and> take 19 (drop 2 (stdout (snd (main dumps urlopen w backend)))) =
       map2 endpoint_line endpoints (check_all dumps urlopen w (rstrip_slash backend) endpoints)"
proof -
  have "d \<noteq> [] \<and> dumps d = Inl e \<longrightarrow>
      check_endpoint dumps urlopen w base_url path meth (Some d) headers = (handlers e, w)"
    by (simp add: check_endpoint_def try_block_def make_body_def)
  moreover have "make_body dumps data = Inr b
       \<and> urlopen w \<lparr>req_url = base_url @ path, req_data = b,
                    req_headers = make_headers headers, req_method = meth\<rparr> 10 = (Inl e, w')
      \<longrightarrow> check_endpoint dumps urlopen w base_url path meth data headers = (handlers e, w')"
    by (simp add: check_endpoint_def try_block_def)
  ultimately show ?thesis
    by (simp add: main_lines length_check_all length_endpoints)
qed

theorem errors_never_abort_the_run_witness:
  "check_endpoint dumps_raises backend_stalls () localhost (ascii ''/api/v1/users/login'')
      (ascii ''POST'') (Some [(ascii ''token'', ())]) None =
     ((False, ascii ''Object of type set is not JSON serializable''), ())
   \<and> check_endpoint dumps_raises backend_stalls () localhost (ascii ''/health'') (ascii ''GET'')
       None None = ((False, ascii ''The read operation timed out''), ())
   \<and> length (check_all dumps_raises backend_stalls () localhost endpoints) = 19
   \<and> take 19 (drop 2 (stdout (snd (main dumps_raises backend_stalls () localhost)))) =
       map2 endpoint_line endpoints (check_all dumps_raises backend_stalls () localhost endpoints)"
proof -
  have r: "rstrip_slash localhost = localhost"
    by (simp add: rstrip_slash_def localhost_def ascii_def)
  show ?thesis
    using errors_never_abort_the_run [where dumps = dumps_raises and urlopen = backend_stalls
        and w = "()" and w' = "()" and d = "[(ascii ''token'', ())]" and data = None and b = None
        and e = "OtherException (ascii ''The read operation timed out'')"
        and base_url = localhost and path = "ascii ''/health''" and meth = "ascii ''GET''"
        and headers = None and backend = localhost]
      errors_never_abort_the_run [where dumps = dumps_raises and urlopen = backend_stalls
        and w = "()" and w' = "()" and d = "[(ascii ''token'', ())]" and data = None and b = None
        and e = "OtherException (ascii ''Object of type set is not JSON serializable'')"
        and base_url = localhost and path = "ascii ''/api/v1/users/login''"
        and meth = "ascii ''POST''"
        and headers = None and backend = localhost]
    by (simp add: r dumps_raises_def backend_stalls_def)
qed

text \<open>
  C8. When every GET is answered with 200 and every POST raises HTTP 401, the run ends
  with 18 passed, 1 protected and 0 failed, prints these counts in the summary and returns
  0. The table holds 18 GET entries and 1 POST entry.
\<close>

theorem main_launch_ready:
  assumes get: "\<And>w r. req_method r = ascii ''GET'' \<Longrightarrow> fst (urlopen w r 10) = Inr 200"
    and post: "\<And>w r. req_method r = ascii ''POST'' \<Longrightarrow>
             \<exists>reason. fst (urlopen w r 10) = Inl (HTTPError 401 reason)"
  shows "fst (main dumps urlopen w backend) = 0
         \<and> passed (snd (main dumps urlopen w backend)) = 18
         \<and> protected (snd (main dumps urlopen w backend)) = 1
         \<and> failed (snd (main dumps urlopen w backend)) = 0
         \<and> last (butlast (stdout (snd (main dumps urlopen w backend)))) =
             [10, 0x1F4CA] @ ascii '' Results: 18 passed, 1 protected, 0 failed''
         \<and> length (filter (\<lambda>e. fst e = ascii ''GET'') endpoints) = 18
         \<and> length (filter (\<lambda>e. fst e = ascii ''POST'') endpoints) = 1"
proof -
  let ?st = "snd (main dumps urlopen w backend)"
  have b: "map bucket_of (check_all dumps urlopen w (rstrip_slash backend) endpoints) =
             [Passed, Passed, Protected] @ replicate 16 Passed"
    using check_all_ready [of urlopen endpoints dumps w "rstrip_slash backend", OF get post endpoint_methods]
    by (simp only: expected_buckets_endpoints)
  have p: "passed ?st = 18" unfolding main_passed count_bucket_map b by simp
  have q: "protected ?st = 1" unfolding main_protected count_bucket_map b by simp
  have f: "failed ?st = 0" unfolding main_failed count_bucket_map b by simp
  have x: "fst (main dumps urlopen w backend) = 0" using f by (simp add: main_exit)
  have s18: "str_int 18 = ascii ''18''" by code_simp
  have s1: "str_int 1 = ascii ''1''" by code_simp
  have s0: "str_int 0 = ascii ''0''" by code_simp
  obtain header verdict where
    "stdout ?st =
       [header, replicate 60 61]
       @ map2 endpoint_line endpoints (check_all dumps urlopen w (rstrip_slash backend) endpoints)
       @ [replicate 60 61, summary_line (passed ?st) (protected ?st) (failed ?st), verdict]"
    using main_stdout [of dumps urlopen w backend] by blast
  then have "last (butlast (stdout ?st)) = summary_line 18 1 0"
    by (simp add: p q f butlast_append)
  then have l: "last (butlast (stdout ?st)) =
             [10, 0x1F4CA] @ ascii '' Results: 18 passed, 1 protected, 0 failed''"
    by (simp add: summary_line_def s18 s1 s0 ascii_def)
  from x p q f l count_get_endpoints count_post_endpoints show ?thesis by simp
qed

theorem main_launch_ready_witness:
  "fst (main dumps_nulls backend_ready 0 localhost) = 0
   \<and> passed (snd (main dumps_nulls backend_ready 0 localhost)) = 18
   \<and> protected (snd (main dumps_nulls backend_ready 0 localhost)) = 1
   \<and> failed (snd (main dumps_nulls backend_ready 0 localhost)) = 0
   \<and> last (butlast (stdout (snd (main dumps_nulls backend_ready 0 localhost)))) =
       [10, 0x1F4CA] @ ascii '' Results: 18 passed, 1 protected, 0 failed''"
proof -
  have g: "\<And>w r. req_method r = ascii ''GET'' \<Longrightarrow> fst (backend_ready w r 10) = Inr 200"
    by (simp add: backend_ready_def)
  have p: "\<And>w r. req_method r = ascii ''POST'' \<Longrightarrow>
             \<exists>reason. fst (backend_ready w r 10) = Inl (HTTPError 401 reason)"
    by (simp add: backend_ready_def ascii_def)
  show ?thesis
    using main_launch_ready [of backend_ready dumps_nulls 0 localhost, OF g p] by simp
qed

text \<open>
  C9, as stated: the line holds the label left-padded to 25 characters, the method
  right-padded to 5 and the path left-padded to 45. In the run against a backend that
  answers 200, the first line printed by the loop has the label followed by its padding
  and the method preceded by its padding, and differs from the line so described.
\<close>

theorem main_line_format_counterexample:
  "stdout (snd (main dumps_nulls backend_ready 0 localhost)) ! 2 =
     icon_passed @ [32] @ ascii ''Core Health'' @ replicate 14 32 @ [32]
       @ replicate 2 32 @ ascii ''GET'' @ [32] @ ascii ''/health'' @ replicate 38 32 @ [32]
       @ ascii ''OK (200)''
   \<and> stdout (snd (main dumps_nulls backend_ready 0 localhost)) ! 2 \<noteq>
       spec_line icon_passed (ascii ''Core Health'') (ascii ''GET'') (ascii ''/health'')
         (ascii ''OK (200)'')"
proof -
  let ?out = "stdout (snd (main dumps_nulls backend_ready 0 localhost))"
  let ?rs = "check_all dumps_nulls backend_ready 0 localhost endpoints"
  let ?line = "icon_passed @ [32] @ ascii ''Core Health'' @ replicate 14 32 @ [32]
       @ replicate 2 32 @ ascii ''GET'' @ [32] @ ascii ''/health'' @ replicate 38 32 @ [32]
       @ ascii ''OK (200)''"
  have len: "length ?out = 24" by (rule main_length_stdout)
  have "?out ! 2 = drop 2 ?out ! 0" using len by simp
  also have "\<dots> = take 19 (drop 2 ?out) ! 0" by simp
  also have "\<dots> = map2 endpoint_line endpoints ?rs ! 0"
    by (simp only: main_lines rstrip_localhost)
  also have "\<dots> = endpoint_line (endpoints ! 0) (?rs ! 0)"
    by (simp add: length_check_all length_endpoints)
  also have "\<dots> = ?line"
    by (simp only: first_endpoint first_result first_line)
  finally have a: "?out ! 2 = ?line" .
  have b: "?line \<noteq> spec_line icon_passed (ascii ''Core Health'') (ascii ''GET'')
                      (ascii ''/health'') (ascii ''OK (200)'')"
    by code_simp
  from a b show ?thesis by (simp only: simp_thms)
qed

text \<open>
  C9, amended: for every endpoint \<open>main\<close> prints one line, in the order of the table: the
  icon, the label left-aligned (spaces added on its right) to a width of at least 25, the
  method right-aligned (spaces added on its left) to a width of at least 5, the path
  left-aligned to a width of at least 45, and the message, with one space between the
  fields. Every field of the 19 endpoints of the table fits, so that their columns are
  exactly 25, 5 and 45 characters wide.
\<close>

theorem main_prints_aligned_lines:
  "take 19 (drop 2 (stdout (snd (main dumps urlopen w backend)))) =
     map2 endpoint_line endpoints (check_all dumps urlopen w (rstrip_slash backend) endpoints)
   \<and> length (check_all dumps urlopen w (rstrip_slash backend) endpoints) = 19
   \<and> endpoint_line (method, path, name) r =
       icon_of (bucket_of r) @ [32] @ (name @ replicate (25 - length name) 32) @ [32]
         @ (replicate (5 - length method) 32 @ method) @ [32]
         @ (path @ replicate (45 - length path) 32) @ [32] @ snd r
   \<and> map (\<lambda>(method, path, name).
            (length (ljust 25 name), length (rjust 5 method), length (ljust 45 path))) endpoints
       = replicate 19 (25, 5, 45)"
proof -
  have "endpoint_line (method, path, name) r =
       icon_of (bucket_of r) @ [32] @ (name @ replicate (25 - length name) 32) @ [32]
         @ (replicate (5 - length method) 32 @ method) @ [32]
         @ (path @ replicate (45 - length path) 32) @ [32] @ snd r"
    by (simp add: endpoint_line_def format_line_def ljust_def rjust_def)
  moreover have "length (check_all dumps urlopen w (rstrip_slash backend) endpoints) = 19"
    by (simp add: length_check_all length_endpoints)
  ultimately show ?thesis
    using main_lines [of dumps urlopen w backend] endpoint_widths by (simp only: simp_thms)
qed

text \<open>
  C10. With an empty dictionary as \<open>data\<close> no body is built and \<open>check_endpoint\<close> does
  exactly what it does with no \<open>data\<close> at all; a body is only ever built from a dictionary
  that is not empty.
\<close>

theorem empty_dict_sends_no_body:
  "make_body dumps (Some []) = Inr None
   \<and> check_endpoint dumps urlopen w base_url path meth (Some []) headers =
       check_endpoint dumps urlopen w base_url path meth None headers
   \<and> (make_body dumps data = Inr (Some s) \<longrightarrow> (\<exists>d. data = Some d \<and> d \<noteq> [] \<and> dumps d = Inr s))"
proof -
  have a: "make_body dumps (Some []) = Inr None" by (simp add: make_body_def)
  have b: "check_endpoint dumps urlopen w base_url path meth (Some []) headers =
       check_endpoint dumps urlopen w base_url path meth None headers"
    by (simp add: check_endpoint_def try_block_def a)
  have c: "make_body dumps data = Inr (Some s) \<longrightarrow> (\<exists>d. data = Some d \<and> d \<noteq> [] \<and> dumps d = Inr s)"
    by (cases data) (auto simp: make_body_def split: if_splits sum.splits)
  from a b c show ?thesis by (simp only: simp_thms)
qed

theorem empty_dict_sends_no_body_witness:
  "make_body dumps_nulls (Some []) = Inr None
   \<and> check_endpoint dumps_nulls backend_ready 0 localhost (ascii ''/api/v1/users/login'')
        (ascii ''POST'') (Some []) None =
       check_endpoint dumps_nulls backend_ready 0 localhost (ascii ''/api/v1/users/login'')
        (ascii ''POST'') None None
   \<and> make_body dumps_nulls (Some [(ascii ''a'', ())]) =
       Inr (Some ([123, 34, 97, 34] @ ascii '': null}''))
   \<and> (\<exists>d. Some [(ascii ''a'', ())] = Some d \<and> d \<noteq> []
          \<and> dumps_nulls d = Inr ([123, 34, 97, 34] @ ascii '': null}''))"
proof -
  have m: "make_body dumps_nulls (Some [(ascii ''a'', ())]) =
             Inr (Some ([123, 34, 97, 34] @ ascii '': null}''))"
    by (simp add: make_body_def dumps_nulls_def ascii_def)
  from m empty_dict_sends_no_body [where dumps = dumps_nulls and urlopen = backend_ready
        and w = 0 and base_url = localhost and path = "ascii ''/api/v1/users/login''"
        and meth = "ascii ''POST''" and headers = None
        and data = "Some [(ascii ''a'', ())]" and s = "[123, 34, 97, 34] @ ascii '': null}''"]
  show ?thesis by (simp only: simp_thms)
qed

end
